theory Spec2Isabelle
  imports Main "HOL-Library.AList"
begin

section \<open>The NexentaEdge iSCSI volume driver (iscsi_ne.py)\<close>

text \<open>
  A shallow embedding of \<^verbatim>\<open>NexentaEdgeISCSIDriver\<close>. The driver object is a record that
  is passed through every operation and returned updated; a raised exception is the
  \<open>Inl\<close> branch of the result, and the state reached when it was raised is returned
  with it, since an assignment made before a \<^verbatim>\<open>raise\<close> stays made in Python.
\<close>

subsection \<open>Data\<close>

text \<open>
  \<^verbatim>\<open>self.name_map\<close> is a Python dict from volume names to LUN numbers (unbounded
  integers). It is an association list with the dict operations of \<open>AList\<close>:
  \<open>map_of\<close> reads a key, \<open>AList.update\<close> is \<^verbatim>\<open>d[k] = v\<close> and \<open>AList.delete\<close>
  removes a key. A dict has every key once: \<open>dict_wf\<close>.
\<close>

type_synonym dict = "(string \<times> int) list"

definition dict_wf :: "dict \<Rightarrow> bool" where
  "dict_wf m = distinct (map fst m)"

text \<open>
  The exceptions of the module: \<^verbatim>\<open>nexenta.NexentaException\<close> with its message, the
  built-in ones the code can raise (a KeyError carries the missing key, the others their
  message), and \<open>BackendError\<close> for any other exception class that the REST proxy
  raises (a transport failure).
\<close>

datatype exn =
    NexentaException string
  | KeyError string
  | IndexError string
  | ValueError string
  | TypeError string
  | NotImplementedError string
  | BackendError string

text \<open>
  \<^verbatim>\<open>unicode(e)\<close> and \<^verbatim>\<open>str(e)\<close>: the message of the exception. The text of a
  KeyError is the \<^verbatim>\<open>repr\<close> of its key, the key of type \<^verbatim>\<open>str\<close> between single quotes.
\<close>

fun unicode :: "exn \<Rightarrow> string" where
  "unicode (NexentaException m) = m"
| "unicode (KeyError k) = CHR 0x27 # k @ [CHR 0x27]"
| "unicode (IndexError m) = m"
| "unicode (ValueError m) = m"
| "unicode (TypeError m) = m"
| "unicode (NotImplementedError m) = m"
| "unicode (BackendError m) = m"

text \<open>
  JSON values of request bodies and responses. \<open>JDumps m\<close> stands for the string
  \<^verbatim>\<open>json.dumps(m)\<close> of a name map \<open>m\<close>, which \<^verbatim>\<open>json.loads\<close> turns back into \<open>m\<close>.
\<close>

datatype jval =
    JStr string
  | JNum int
  | JObj "(string \<times> jval) list"
  | JDumps dict

text \<open>
  The calls on \<^verbatim>\<open>self.restapi\<close> (the JSON proxy of \<^verbatim>\<open>jsonrpc_ne\<close>, an external
  collaborator): method, path and body.
\<close>

datatype rest_call =
    GET string
  | PUT string "(string \<times> jval) list"
  | POST string "(string \<times> jval) list"
  | DELETE string "(string \<times> jval) list option"

text \<open>
  The JSON object that a call returns, by the two members that the driver reads: the
  member \<^verbatim>\<open>value\<close>, a string when it is present, and the member \<^verbatim>\<open>bucketMetadata\<close>,
  an object when it is present. A response where one of them has another JSON type is
  outside this type.
\<close>

record response =
  rsp_value :: "string option"
  rsp_bucketMetadata :: "(string \<times> jval) list option"

definition empty_response :: response where
  "empty_response = \<lparr>rsp_value = None, rsp_bucketMetadata = None\<rparr>"

text \<open>
  The backend is a parameter: it answers a call, given the calls issued before it,
  with a response or with the exception the proxy raises.
\<close>

type_synonym backend = "rest_call list \<Rightarrow> rest_call \<Rightarrow> exn + response"

text \<open>
  The driver after a successful \<^verbatim>\<open>do_setup\<close>. \<open>rest_trace\<close> is the list of REST calls
  issued so far and \<open>error_log\<close> the messages given to \<^verbatim>\<open>LOG.error\<close>.
\<close>

record driver =
  restapi_host :: string
  iscsi_target_portal_port :: int
  bucket_path :: string
  tenant :: string
  bucket :: string
  bucket_url :: string
  target_name :: string
  name_map :: dict
  rest_trace :: "rest_call list"
  error_log :: "string list"

text \<open>The records of the framework: \<^verbatim>\<open>volume\<close> and \<^verbatim>\<open>snapshot\<close>.\<close>

record volume =
  vol_name :: string
  vol_size :: int
  vol_id :: string

record snapshot =
  snap_name :: string
  snap_volume_name :: string
  snap_volume_size :: int

definition LUN_BLOCKSIZE :: int where
  "LUN_BLOCKSIZE = 512"

definition LUN_CHUNKSIZE :: int where
  "LUN_CHUNKSIZE = 131072"

subsection \<open>Helpers: str, logging, REST calls\<close>

text \<open>\<^verbatim>\<open>str(n)\<close> of an integer: its decimal digits, with a sign.\<close>

fun digits :: "nat \<Rightarrow> string" where
  "digits n =
     (if n < 10 then [''0123456789'' ! n]
      else digits (n div 10) @ [''0123456789'' ! (n mod 10)])"

declare digits.simps [simp del]

definition str :: "int \<Rightarrow> string" where
  "str i = (if i < 0 then CHR ''-'' # digits (nat (- i)) else digits (nat i))"

definition LOG_error :: "driver \<Rightarrow> string \<Rightarrow> driver" where
  "LOG_error st msg = st\<lparr>error_log := error_log st @ [msg]\<rparr>"

text \<open>
  A call on \<^verbatim>\<open>self.restapi\<close>: the backend answers, and the call is recorded as issued
  whether it succeeds or fails.
\<close>

definition restapi :: "backend \<Rightarrow> driver \<Rightarrow> rest_call \<Rightarrow> (exn + response) \<times> driver" where
  "restapi be st c = (be (rest_trace st) c, st\<lparr>rest_trace := rest_trace st @ [c]\<rparr>)"

text \<open>
  \<^verbatim>\<open>try: ... except nexenta.NexentaException as e: LOG.error(msg % unicode(e)); raise\<close>:
  a NexentaException is logged and raised again, any other exception passes untouched.
\<close>

definition log_and_reraise :: "string \<Rightarrow> (exn + 'a) \<times> driver \<Rightarrow> (exn + 'a) \<times> driver" where
  "log_and_reraise msg r =
     (case r of
        (Inl (NexentaException m), st) \<Rightarrow>
          (Inl (NexentaException m), LOG_error st (msg @ unicode (NexentaException m)))
      | _ \<Rightarrow> r)"

subsection \<open>The name map\<close>

definition set_bucket_name_map :: "backend \<Rightarrow> driver \<Rightarrow> (exn + unit) \<times> driver" where
  "set_bucket_name_map be st =
     (case restapi be st
             (PUT (bucket_url st)
                [(''optionsObject'', JObj [(''X-Name-Map'', JDumps (name_map st))])]) of
        (Inl e, st1) \<Rightarrow> (Inl e, st1)
      | (Inr rsp, st1) \<Rightarrow> (Inr (), st1))"

definition verify_name_in_map :: "driver \<Rightarrow> string \<Rightarrow> (exn + unit) \<times> driver" where
  "verify_name_in_map st name =
     (if \<not> (name \<in> set (map fst (name_map st))) then
        (Inl (NexentaException (''Bucket metadata '' @ ''map missing volume: '' @ name)),
         LOG_error st (''Bucket metadata map missing volume: '' @ name))
      else (Inr (), st))"

definition get_lun_from_name :: "driver \<Rightarrow> string \<Rightarrow> (exn + int) \<times> driver" where
  "get_lun_from_name st name =
     (case verify_name_in_map st name of
        (Inl e, st1) \<Rightarrow> (Inl e, st1)
      | (Inr u, st1) \<Rightarrow>
          (case map_of (name_map st1) name of
             None \<Rightarrow> (Inl (KeyError name), st1)
           | Some v \<Rightarrow> (Inr v, st1)))"

text \<open>
  The inner loop of \<^verbatim>\<open>_allocate_lun_number\<close>: is \<open>i\<close> the value of an item of the map?
\<close>

fun lun_exists :: "int \<Rightarrow> dict \<Rightarrow> bool" where
  "lun_exists i [] = False"
| "lun_exists i ((k, v) # kvs) = (if i = v then True else lun_exists i kvs)"

text \<open>The outer loop, over \<^verbatim>\<open>range(1, 256)\<close>: the first \<open>i\<close> that no item holds.\<close>

fun scan_luns :: "dict \<Rightarrow> int list \<Rightarrow> int option" where
  "scan_luns m [] = None"
| "scan_luns m (i # is) = (if \<not> lun_exists i m then Some i else scan_luns m is)"

definition allocate_lun_number :: "driver \<Rightarrow> (exn + int) \<times> driver" where
  "allocate_lun_number st =
     (case scan_luns (name_map st) [1..255] of
        None \<Rightarrow>
          (Inl (NexentaException ''All 255 lun numbers used''),
           LOG_error st (''Failed to allocate LUN number: '' @ ''All 255 lun numbers used, WOW!''))
      | Some lunNumber \<Rightarrow> (Inr lunNumber, st))"

text \<open>\<^verbatim>\<open>self.name_map.pop(name)\<close>: a KeyError when the key is missing.\<close>

definition dict_pop :: "dict \<Rightarrow> string \<Rightarrow> exn + dict" where
  "dict_pop m name =
     (if name \<in> set (map fst m) then Inr (AList.delete name m) else Inl (KeyError name))"

subsection \<open>The operations on volumes and snapshots\<close>

text \<open>The body of the POST that creates a LUN over an object of the bucket.\<close>

definition iscsi_body :: "driver \<Rightarrow> int \<Rightarrow> int \<Rightarrow> (string \<times> jval) list" where
  "iscsi_body st lunNumber sz =
     [(''objectPath'', JStr (bucket_path st @ ''/'' @ str lunNumber)),
      (''volSizeMB'', JNum (sz * 1024)),
      (''blockSize'', JNum LUN_BLOCKSIZE),
      (''chunkSize'', JNum LUN_CHUNKSIZE),
      (''number'', JNum lunNumber)]"

definition get_provider_location :: "driver \<Rightarrow> volume \<Rightarrow> (exn + string) \<times> driver" where
  "get_provider_location st volume =
     (case get_lun_from_name st (vol_name volume) of
        (Inl e, st1) \<Rightarrow> (Inl e, st1)
      | (Inr number, st1) \<Rightarrow>
          (Inr (restapi_host st1 @ '':'' @ str (iscsi_target_portal_port st1) @ '',1 ''
                  @ target_name st1 @ '' '' @ str number), st1))"

text \<open>
  \<^verbatim>\<open>create_volume\<close> returns \<^verbatim>\<open>{'provider_location': ...}\<close>; the model returns the
  location string. The allocation is outside the \<^verbatim>\<open>try\<close>; the POST, the assignment to
  the map and the PUT of the map are inside it, in this order.
\<close>

definition create_volume :: "backend \<Rightarrow> driver \<Rightarrow> volume \<Rightarrow> (exn + string) \<times> driver" where
  "create_volume be st volume =
     (case allocate_lun_number st of
        (Inl e, st1) \<Rightarrow> (Inl e, st1)
      | (Inr lunNumber, st1) \<Rightarrow>
          (case log_and_reraise ''Error while creating volume: ''
                  (case restapi be st1
                          (POST ''iscsi'' (iscsi_body st1 lunNumber (vol_size volume))) of
                     (Inl e, st2) \<Rightarrow> (Inl e, st2)
                   | (Inr rsp, st2) \<Rightarrow>
                       set_bucket_name_map be
                         (st2\<lparr>name_map :=
                                AList.update (vol_name volume) lunNumber (name_map st2)\<rparr>)) of
             (Inl e, st3) \<Rightarrow> (Inl e, st3)
           | (Inr u, st3) \<Rightarrow> get_provider_location st3 volume))"

definition delete_volume :: "backend \<Rightarrow> driver \<Rightarrow> volume \<Rightarrow> (exn + unit) \<times> driver" where
  "delete_volume be st volume =
     (case get_lun_from_name st (vol_name volume) of
        (Inl e, st1) \<Rightarrow> (Inl e, st1)
      | (Inr lunNumber, st1) \<Rightarrow>
          log_and_reraise ''Error while deleting: ''
            (case restapi be st1
                    (DELETE (''iscsi/'' @ str lunNumber)
                       (Some [(''objectPath'',
                               JStr (bucket_path st1 @ ''/'' @ str lunNumber))])) of
               (Inl e, st2) \<Rightarrow> (Inl e, st2)
             | (Inr rsp, st2) \<Rightarrow>
                 (case dict_pop (name_map st2) (vol_name volume) of
                    Inl e \<Rightarrow> (Inl e, st2)
                  | Inr m \<Rightarrow> set_bucket_name_map be (st2\<lparr>name_map := m\<rparr>))))"

definition extend_volume :: "backend \<Rightarrow> driver \<Rightarrow> volume \<Rightarrow> int \<Rightarrow> (exn + unit) \<times> driver" where
  "extend_volume be st volume new_size =
     (case get_lun_from_name st (vol_name volume) of
        (Inl e, st1) \<Rightarrow> (Inl e, st1)
      | (Inr lunNumber, st1) \<Rightarrow>
          (case restapi be st1
                  (POST (''iscsi/'' @ str lunNumber @ ''/resize'')
                     [(''objectPath'', JStr (bucket_path st1 @ ''/'' @ str lunNumber)),
                      (''newSizeMB'', JNum (new_size * 1024))]) of
             (Inl e, st2) \<Rightarrow> (Inl e, st2)
           | (Inr rsp, st2) \<Rightarrow> (Inr (), st2)))"

definition create_volume_from_snapshot ::
    "backend \<Rightarrow> driver \<Rightarrow> volume \<Rightarrow> snapshot \<Rightarrow> (exn + unit) \<times> driver" where
  "create_volume_from_snapshot be st volume snapshot =
     (case get_lun_from_name st (snap_volume_name snapshot) of
        (Inl e, st1) \<Rightarrow> (Inl e, st1)
      | (Inr lunNumber, st1) \<Rightarrow>
          (case allocate_lun_number st1 of
             (Inl e, st2) \<Rightarrow> (Inl e, st2)
           | (Inr newLun, st2) \<Rightarrow>
               log_and_reraise ''Error while creating volume: ''
                 (case restapi be st2
                         (POST (bucket_url st2 @ ''/snapviews/'' @ str lunNumber
                                  @ ''.snapview/snapshots/'' @ snap_name snapshot)
                            [(''ss_tenant'', JStr (tenant st2)),
                             (''ss_bucket'', JStr (bucket st2)),
                             (''ss_object'', JStr (str newLun))]) of
                    (Inl e, st3) \<Rightarrow> (Inl e, st3)
                  | (Inr rsp, st3) \<Rightarrow>
                      (case restapi be st3
                              (POST ''iscsi''
                                 (iscsi_body st3 newLun (snap_volume_size snapshot))) of
                         (Inl e, st4) \<Rightarrow> (Inl e, st4)
                       | (Inr rsp2, st4) \<Rightarrow>
                           set_bucket_name_map be
                             (st4\<lparr>name_map :=
                                    AList.update (vol_name volume) newLun (name_map st4)\<rparr>)))))"

definition create_snapshot :: "backend \<Rightarrow> driver \<Rightarrow> snapshot \<Rightarrow> (exn + unit) \<times> driver" where
  "create_snapshot be st snapshot =
     (case get_lun_from_name st (snap_volume_name snapshot) of
        (Inl e, st1) \<Rightarrow> (Inl e, st1)
      | (Inr lunNumber, st1) \<Rightarrow>
          (case restapi be st1
                  (POST (bucket_url st1 @ ''/snapviews/'' @ str lunNumber @ ''.snapview'')
                     [(''ss_bucket'', JStr (bucket st1)),
                      (''ss_object'', JStr (str lunNumber)),
                      (''ss_name'', JStr (snap_name snapshot))]) of
             (Inl e, st2) \<Rightarrow> (Inl e, st2)
           | (Inr rsp, st2) \<Rightarrow> (Inr (), st2)))"

definition delete_snapshot :: "backend \<Rightarrow> driver \<Rightarrow> snapshot \<Rightarrow> (exn + unit) \<times> driver" where
  "delete_snapshot be st snapshot =
     (case get_lun_from_name st (snap_volume_name snapshot) of
        (Inl e, st1) \<Rightarrow> (Inl e, st1)
      | (Inr lunNumber, st1) \<Rightarrow>
          (case restapi be st1
                  (DELETE (bucket_url st1 @ ''/snapviews/'' @ str lunNumber
                             @ ''.snapview/snapshots/'' @ snap_name snapshot) None) of
             (Inl e, st2) \<Rightarrow> (Inl e, st2)
           | (Inr rsp, st2) \<Rightarrow> (Inr (), st2)))"

text \<open>
  \<^verbatim>\<open>create_cloned_volume\<close>: the source's LUN number is looked up while the clone URL is
  built, then the new number is allocated (the clone body names it), and only then the
  \<^verbatim>\<open>try\<close> block issues the two POSTs, assigns to the map and PUTs it.
\<close>

definition create_cloned_volume ::
    "backend \<Rightarrow> driver \<Rightarrow> volume \<Rightarrow> volume \<Rightarrow> (exn + unit) \<times> driver" where
  "create_cloned_volume be st volume src_vref =
     (case get_lun_from_name st (vol_name src_vref) of
        (Inl e, st1) \<Rightarrow> (Inl e, st1)
      | (Inr srcLun, st1) \<Rightarrow>
          (case allocate_lun_number st1 of
             (Inl e, st2) \<Rightarrow> (Inl e, st2)
           | (Inr newLun, st2) \<Rightarrow>
               log_and_reraise ''Error creating cloned volume: ''
                 (case restapi be st2
                         (POST (bucket_url st2 @ ''/objects/'' @ str srcLun @ ''/clone'')
                            [(''tenant_name'', JStr (tenant st2)),
                             (''bucket_name'', JStr (bucket st2)),
                             (''object_name'', JStr (str newLun))]) of
                    (Inl e, st3) \<Rightarrow> (Inl e, st3)
                  | (Inr rsp, st3) \<Rightarrow>
                      (case restapi be st3
                              (POST ''iscsi'' (iscsi_body st3 newLun (vol_size src_vref))) of
                         (Inl e, st4) \<Rightarrow> (Inl e, st4)
                       | (Inr rsp2, st4) \<Rightarrow>
                           set_bucket_name_map be
                             (st4\<lparr>name_map :=
                                    AList.update (vol_name volume) newLun (name_map st4)\<rparr>)))))"

subsection \<open>Exports and connections\<close>

definition create_export :: "driver \<Rightarrow> volume \<Rightarrow> (exn + string) \<times> driver" where
  "create_export st volume = get_provider_location st volume"

text \<open>The three operations whose body is \<^verbatim>\<open>pass\<close>.\<close>

definition ensure_export :: "driver \<Rightarrow> volume \<Rightarrow> (exn + unit) \<times> driver" where
  "ensure_export st volume = (Inr (), st)"

definition remove_export :: "driver \<Rightarrow> volume \<Rightarrow> (exn + unit) \<times> driver" where
  "remove_export st volume = (Inr (), st)"

definition terminate_connection :: "driver \<Rightarrow> volume \<Rightarrow> (exn + unit) \<times> driver" where
  "terminate_connection st volume = (Inr (), st)"

definition local_path :: "driver \<Rightarrow> volume \<Rightarrow> (exn + string) \<times> driver" where
  "local_path st volume =
     (case get_lun_from_name st (vol_name volume) of
        (Inl e, st1) \<Rightarrow> (Inl e, st1)
      | (Inr lunNumber, st1) \<Rightarrow> (Inr (bucket_path st1 @ ''/'' @ str lunNumber), st1))"

definition backup_volume :: "driver \<Rightarrow> (exn + unit) \<times> driver" where
  "backup_volume st = (Inl (NotImplementedError []), st)"

definition restore_backup :: "driver \<Rightarrow> (exn + unit) \<times> driver" where
  "restore_backup st = (Inl (NotImplementedError []), st)"

definition check_for_setup_error :: "backend \<Rightarrow> driver \<Rightarrow> (exn + unit) \<times> driver" where
  "check_for_setup_error be st =
     (case restapi be st (GET (bucket_url st)) of
        (Inl e, st1) \<Rightarrow> (Inl e, st1)
      | (Inr rsp, st1) \<Rightarrow> (Inr (), st1))"

subsection \<open>Setup\<close>

text \<open>
  The driver object while \<^verbatim>\<open>do_setup\<close> runs: \<^verbatim>\<open>self.target_name\<close> and
  \<^verbatim>\<open>self.name_map\<close> do not exist until they are assigned, so they are options here.
  Only the attributes that \<^verbatim>\<open>do_setup\<close> reads or writes are kept.
\<close>

record new_driver =
  nd_restapi_host :: string
  nd_bucket_url :: string
  nd_target_name :: "string option"
  nd_name_map :: "dict option"
  nd_rest_trace :: "rest_call list"
  nd_error_log :: "string list"

definition nd_LOG_error :: "new_driver \<Rightarrow> string \<Rightarrow> new_driver" where
  "nd_LOG_error nd msg = nd\<lparr>nd_error_log := nd_error_log nd @ [msg]\<rparr>"

definition nd_restapi_get ::
    "backend \<Rightarrow> new_driver \<Rightarrow> string \<Rightarrow> (exn + response) \<times> new_driver" where
  "nd_restapi_get be nd path =
     (be (nd_rest_trace nd) (GET path), nd\<lparr>nd_rest_trace := nd_rest_trace nd @ [GET path]\<rparr>)"

text \<open>\<^verbatim>\<open>s.split(c)\<close> with a separator of one character: never an empty list.\<close>

fun split :: "char \<Rightarrow> string \<Rightarrow> string list" where
  "split c [] = [[]]"
| "split c (x # xs) =
     (if x = c then [] # split c xs
      else (x # hd (split c xs)) # tl (split c xs))"

text \<open>
  \<^verbatim>\<open>rsp['value'].split('\n', 1)[0].split(' ')[2]\<close>: the third token of the first line;
  a KeyError when the member is missing, an IndexError when the line has fewer than
  three tokens.
\<close>

definition status_target_name :: "response \<Rightarrow> exn + string" where
  "status_target_name rsp =
     (case rsp_value rsp of
        None \<Rightarrow> Inl (KeyError ''value'')
      | Some s \<Rightarrow>
          (let tokens = split CHR '' '' (takeWhile (\<lambda>c. c \<noteq> CHR 0x0A) s)
           in if 2 < length tokens then Inr (tokens ! 2)
              else Inl (IndexError ''list index out of range'')))"

text \<open>
  \<^verbatim>\<open>json.loads\<close> on the value of \<^verbatim>\<open>X-Name-Map\<close>. The text \<^verbatim>\<open>json.dumps(m)\<close> of a
  map gives the map back; a value that is not a string raises TypeError; \<open>JStr s\<close>
  stands here for a string that is not a JSON text, on which it raises ValueError.
\<close>

fun json_loads :: "jval \<Rightarrow> exn + dict" where
  "json_loads (JDumps m) = Inr m"
| "json_loads (JStr s) = Inl (ValueError ''No JSON object could be decoded'')"
| "json_loads (JNum n) = Inl (TypeError ''expected string or buffer'')"
| "json_loads (JObj ms) = Inl (TypeError ''expected string or buffer'')"

text \<open>
  \<^verbatim>\<open>_get_bucket_name_map\<close>: the empty map when the response has no \<^verbatim>\<open>bucketMetadata\<close>
  or the metadata have no \<^verbatim>\<open>X-Name-Map\<close>, and \<^verbatim>\<open>json.loads\<close> of that member otherwise.
\<close>

definition get_bucket_name_map :: "backend \<Rightarrow> new_driver \<Rightarrow> (exn + dict) \<times> new_driver" where
  "get_bucket_name_map be nd =
     (case nd_restapi_get be nd (nd_bucket_url nd) of
        (Inl e, nd1) \<Rightarrow> (Inl e, nd1)
      | (Inr rsp, nd1) \<Rightarrow>
          (case rsp_bucketMetadata rsp of
             None \<Rightarrow> (Inr [], nd1)
           | Some md \<Rightarrow>
               (case map_of md ''X-Name-Map'' of
                  None \<Rightarrow> (Inr [], nd1)
                | Some v \<Rightarrow>
                    (case json_loads v of
                       Inl e \<Rightarrow> (Inl e, nd1)
                     | Inr namemap \<Rightarrow> (Inr namemap, nd1)))))"

text \<open>
  \<^verbatim>\<open>do_setup\<close> returns \<^verbatim>\<open>None\<close>, or, from its \<^verbatim>\<open>except Exception\<close> clause, the exception
  object as its value (\<^verbatim>\<open>return exc\<close>): the result \<open>Inr (Some exc)\<close> is a normal return.
\<close>

definition do_setup :: "backend \<Rightarrow> new_driver \<Rightarrow> (exn + exn option) \<times> new_driver" where
  "do_setup be nd =
     (case nd_restapi_get be nd ''sysconfig/iscsi/status'' of
        (Inl exc, nd1) \<Rightarrow>
          (Inr (Some exc),
           nd_LOG_error
             (nd_LOG_error nd1 (''Error reaching NexentaEdge host: '' @ nd_restapi_host nd1))
             (unicode exc))
      | (Inr rsp, nd1) \<Rightarrow>
          (case status_target_name rsp of
             Inl e \<Rightarrow> (Inl e, nd1)
           | Inr t \<Rightarrow>
               (case get_bucket_name_map be (nd1\<lparr>nd_target_name := Some t\<rparr>) of
                  (Inl e, nd2) \<Rightarrow> (Inl e, nd2)
                | (Inr namemap, nd2) \<Rightarrow> (Inr None, nd2\<lparr>nd_name_map := Some namemap\<rparr>))))"

subsection \<open>Notions used to state the properties\<close>

text \<open>The LUN numbers in use: the values of the items of the map.\<close>

definition lun_numbers :: "dict \<Rightarrow> int set" where
  "lun_numbers m = snd ` set m"

text \<open>
  The invariant of the name map: no LUN number is the value of two items, and every
  value lies in the closed range from 1 to 255.
\<close>

definition lun_inv :: "dict \<Rightarrow> bool" where
  "lun_inv m = (distinct (map snd m) \<and> list_all (\<lambda>v. 1 \<le> v \<and> v \<le> 255) (map snd m))"

text \<open>The requests that the operations send, by name.\<close>

definition create_lun_call :: "driver \<Rightarrow> int \<Rightarrow> int \<Rightarrow> rest_call" where
  "create_lun_call st lunNumber sz = POST ''iscsi'' (iscsi_body st lunNumber sz)"

definition persist_call :: "driver \<Rightarrow> dict \<Rightarrow> rest_call" where
  "persist_call st m =
     PUT (bucket_url st) [(''optionsObject'', JObj [(''X-Name-Map'', JDumps m)])]"

definition delete_lun_call :: "driver \<Rightarrow> int \<Rightarrow> rest_call" where
  "delete_lun_call st lunNumber =
     DELETE (''iscsi/'' @ str lunNumber)
       (Some [(''objectPath'', JStr (bucket_path st @ ''/'' @ str lunNumber))])"

definition clone_call :: "driver \<Rightarrow> int \<Rightarrow> int \<Rightarrow> rest_call" where
  "clone_call st srcLun newLun =
     POST (bucket_url st @ ''/objects/'' @ str srcLun @ ''/clone'')
       [(''tenant_name'', JStr (tenant st)),
        (''bucket_name'', JStr (bucket st)),
        (''object_name'', JStr (str newLun))]"

fun is_PUT :: "rest_call \<Rightarrow> bool" where
  "is_PUT (PUT path body) = True"
| "is_PUT c = False"

subsection \<open>Concrete drivers, volumes and backends\<close>

definition example_driver :: "dict \<Rightarrow> driver" where
  "example_driver m =
     \<lparr>restapi_host = ''10.0.0.1'', iscsi_target_portal_port = 3260,
      bucket_path = ''clu/ten/bk'', tenant = ''ten'', bucket = ''bk'',
      bucket_url = ''clusters/clu/tenants/ten/buckets/bk'',
      target_name = ''iqn.test'', name_map = m, rest_trace = [], error_log = []\<rparr>"

definition example_volume :: "string \<Rightarrow> volume" where
  "example_volume n = \<lparr>vol_name = n, vol_size = 10, vol_id = ''id''\<rparr>"

definition example_snapshot :: "string \<Rightarrow> snapshot" where
  "example_snapshot n = \<lparr>snap_name = ''snap'', snap_volume_name = n, snap_volume_size = 10\<rparr>"

text \<open>A map that uses all 255 numbers: the names are \<open>v1\<close>, ..., \<open>v255\<close>.\<close>

definition full_map :: dict where
  "full_map = map (\<lambda>i. (CHR ''v'' # str i, i)) [1..255]"

text \<open>A backend where every call succeeds, and one where the call number \<open>k\<close> fails.\<close>

definition backend_ok :: backend where
  "backend_ok = (\<lambda>tr c. Inr empty_response)"

definition backend_fail_at :: "nat \<Rightarrow> exn \<Rightarrow> backend" where
  "backend_fail_at k e = (\<lambda>tr c. if length tr = k then Inl e else Inr empty_response)"

definition example_new_driver :: new_driver where
  "example_new_driver =
     \<lparr>nd_restapi_host = ''10.0.0.1'',
      nd_bucket_url = ''clusters/clu/tenants/ten/buckets/bk'',
      nd_target_name = None, nd_name_map = None,
      nd_rest_trace = [], nd_error_log = []\<rparr>"

section \<open>Properties\<close>

subsection \<open>Allocation of LUN numbers\<close>

lemma lun_numbers_ran: "dict_wf m \<Longrightarrow> lun_numbers m = ran (map_of m)"
  by (simp add: lun_numbers_def dict_wf_def ran_distinct)

lemma lun_exists_iff: "lun_exists i m \<longleftrightarrow> i \<in> lun_numbers m"
  by (induction m) (auto simp: lun_numbers_def)

lemma scan_luns_None: "scan_luns m xs = None \<longleftrightarrow> set xs \<subseteq> lun_numbers m"
  by (induction xs) (auto simp: lun_exists_iff)

lemma scan_luns_Some:
  "scan_luns m xs = Some r \<Longrightarrow> r \<in> set xs \<and> r \<notin> lun_numbers m"
  by (induction xs) (auto simp: lun_exists_iff split: if_splits)

lemma scan_luns_least:
  "scan_luns m xs = Some r \<Longrightarrow> sorted xs \<Longrightarrow> i \<in> set xs \<Longrightarrow> i < r \<Longrightarrow> i \<in> lun_numbers m"
  by (induction xs) (auto simp: lun_exists_iff split: if_splits)

text \<open>Fewer than 255 items cannot hold all of 1, ..., 255.\<close>

lemma few_entries_free: "length m < 255 \<Longrightarrow> \<not> {1..255} \<subseteq> lun_numbers m"
proof
  assume len: "length m < 255" and sub: "{1..255::int} \<subseteq> lun_numbers m"
  have "card {1..255::int} \<le> card (lun_numbers m)"
    using sub by (intro card_mono) (simp_all add: lun_numbers_def)
  also have "\<dots> \<le> length m"
    unfolding lun_numbers_def by (metis card_image_le card_length le_trans List.finite_set)
  finally show False using len by simp
qed

lemma full_map_numbers: "lun_numbers full_map = {1..255}"
  by (simp add: full_map_def lun_numbers_def image_image)

text \<open>
  Claim C1. On a name map with fewer than 255 items, \<^verbatim>\<open>_allocate_lun_number\<close> returns
  a number \<open>l\<close> with \<open>1 \<le> l \<le> 255\<close> that is not a value of the map, and every number
  from 1 below \<open>l\<close> is a value of the map: \<open>l\<close> is the smallest free number. On a map
  whose values cover 1, ..., 255 it raises the NexentaException
  \<^verbatim>\<open>All 255 lun numbers used\<close> and returns no number.
\<close>

theorem allocate_lun_number_smallest_free:
  "(length (name_map st) < 255 \<longrightarrow>
      (\<exists>l. fst (allocate_lun_number st) = Inr l \<and> 1 \<le> l \<and> l \<le> 255 \<and>
           l \<notin> lun_numbers (name_map st) \<and>
           (\<forall>j. 1 \<le> j \<and> j < l \<longrightarrow> j \<in> lun_numbers (name_map st)))) \<and>
   ({1..255} \<subseteq> lun_numbers (name_map st) \<longrightarrow>
      fst (allocate_lun_number st) = Inl (NexentaException ''All 255 lun numbers used''))"
proof (intro conjI impI)
  assume "length (name_map st) < 255"
  then have "scan_luns (name_map st) [1..255] \<noteq> None"
    using few_entries_free [of "name_map st"] by (simp add: scan_luns_None)
  then obtain l where l: "scan_luns (name_map st) [1..255] = Some l" by blast
  from scan_luns_Some [OF l] have "1 \<le> l" "l \<le> 255" "l \<notin> lun_numbers (name_map st)"
    by simp_all
  moreover have "\<forall>j. 1 \<le> j \<and> j < l \<longrightarrow> j \<in> lun_numbers (name_map st)"
    using scan_luns_least [OF l] \<open>l \<le> 255\<close> by simp
  moreover have "fst (allocate_lun_number st) = Inr l"
    by (simp add: allocate_lun_number_def l)
  ultimately show "\<exists>l. fst (allocate_lun_number st) = Inr l \<and> 1 \<le> l \<and> l \<le> 255 \<and>
           l \<notin> lun_numbers (name_map st) \<and>
           (\<forall>j. 1 \<le> j \<and> j < l \<longrightarrow> j \<in> lun_numbers (name_map st))"
    by blast
next
  assume "{1..255} \<subseteq> lun_numbers (name_map st)"
  then have "scan_luns (name_map st) [1..255] = None"
    by (simp add: scan_luns_None)
  then show "fst (allocate_lun_number st) = Inl (NexentaException ''All 255 lun numbers used'')"
    by (simp add: allocate_lun_number_def)
qed

text \<open>
  The map \<open>{vol1: 1, vol3: 3}\<close> has two items and the allocation returns 2; on the
  full map the allocation raises.
\<close>

theorem allocate_lun_number_smallest_free_witness:
  "length (name_map (example_driver [(''vol1'', 1), (''vol3'', 3)])) < 255 \<and>
   fst (allocate_lun_number (example_driver [(''vol1'', 1), (''vol3'', 3)])) = Inr 2 \<and>
   {1..255} \<subseteq> lun_numbers (name_map (example_driver full_map)) \<and>
   fst (allocate_lun_number (example_driver full_map)) =
     Inl (NexentaException ''All 255 lun numbers used'')"
proof -
  let ?st = "example_driver [(''vol1'', 1), (''vol3'', 3)]"
  have len: "length (name_map ?st) < 255"
    by (simp add: example_driver_def)
  have nums: "lun_numbers (name_map ?st) = {1, 3}"
    by (simp add: example_driver_def lun_numbers_def)
  from allocate_lun_number_smallest_free [of ?st] len
  obtain l where l: "fst (allocate_lun_number ?st) = Inr l" "1 \<le> l" "l \<notin> {1, 3}"
    "\<forall>j. 1 \<le> j \<and> j < l \<longrightarrow> j \<in> {1, 3}"
    unfolding nums by blast
  have "l = 2"
  proof (rule ccontr)
    assume "l \<noteq> 2"
    with l(2,3) have "1 \<le> (2::int) \<and> 2 < l" by auto
    with l(4) [rule_format, of 2] show False by simp
  qed
  have full: "{1..255} \<subseteq> lun_numbers (name_map (example_driver full_map))"
    by (simp add: example_driver_def full_map_numbers)
  with allocate_lun_number_smallest_free [of "example_driver full_map"]
  have "fst (allocate_lun_number (example_driver full_map)) =
     Inl (NexentaException ''All 255 lun numbers used'')"
    by blast
  with len l(1) \<open>l = 2\<close> full show ?thesis by simp
qed

subsection \<open>Looking a name up\<close>

lemma LOG_error_frame [simp]:
  "name_map (LOG_error st msg) = name_map st"
  "rest_trace (LOG_error st msg) = rest_trace st"
  "bucket_url (LOG_error st msg) = bucket_url st"
  "bucket_path (LOG_error st msg) = bucket_path st"
  by (simp_all add: LOG_error_def)

text \<open>The lookup in one step: the test of the key and the read agree.\<close>

lemma get_lun_from_name_eq:
  "get_lun_from_name st n =
     (case map_of (name_map st) n of
        None \<Rightarrow>
          (Inl (NexentaException (''Bucket metadata map missing volume: '' @ n)),
           LOG_error st (''Bucket metadata map missing volume: '' @ n))
      | Some v \<Rightarrow> (Inr v, st))"
proof (cases "map_of (name_map st) n")
  case None
  then have "n \<notin> fst ` set (name_map st)" by (simp add: map_of_eq_None_iff)
  with None show ?thesis
    by (simp add: get_lun_from_name_def verify_name_in_map_def)
next
  case (Some v)
  then have "n \<in> fst ` set (name_map st)" by (metis map_of_eq_None_iff option.distinct(1))
  with Some show ?thesis
    by (simp add: get_lun_from_name_def verify_name_in_map_def)
qed

lemma get_lun_from_name_frame [simp]:
  "name_map (snd (get_lun_from_name st n)) = name_map st"
  "rest_trace (snd (get_lun_from_name st n)) = rest_trace st"
  by (simp_all add: get_lun_from_name_eq split: option.splits)

lemma get_lun_from_name_Inr:
  "get_lun_from_name st n = (Inr v, st') \<longleftrightarrow> map_of (name_map st) n = Some v \<and> st' = st"
  by (auto simp: get_lun_from_name_eq split: option.splits)

text \<open>
  Claim C3. \<^verbatim>\<open>_get_lun_from_name\<close> raises exactly when the name is not a key of the
  map, and then it raises the NexentaException whose message is
  \<^verbatim>\<open>Bucket metadata map missing volume: \<close> followed by the name; when the name is a key
  it returns the integer stored for it. In both cases the map is left as it was.
\<close>

theorem get_lun_from_name_correct:
  "((\<exists>e. fst (get_lun_from_name st n) = Inl e) \<longleftrightarrow> map_of (name_map st) n = None) \<and>
   (map_of (name_map st) n = None \<longrightarrow>
      fst (get_lun_from_name st n) =
        Inl (NexentaException (''Bucket metadata map missing volume: '' @ n))) \<and>
   (\<forall>v. map_of (name_map st) n = Some v \<longrightarrow> fst (get_lun_from_name st n) = Inr v) \<and>
   name_map (snd (get_lun_from_name st n)) = name_map st"
  by (auto simp: get_lun_from_name_eq split: option.splits)

theorem get_lun_from_name_correct_witness:
  "map_of (name_map (example_driver [(''vol2'', 2)])) ''vol2'' = Some 2 \<and>
   fst (get_lun_from_name (example_driver [(''vol2'', 2)]) ''vol2'') = Inr 2 \<and>
   map_of (name_map (example_driver [(''vol2'', 2)])) ''vol9'' = None \<and>
   fst (get_lun_from_name (example_driver [(''vol2'', 2)]) ''vol9'') =
     Inl (NexentaException ''Bucket metadata map missing volume: vol9'')"
  using get_lun_from_name_correct [of "example_driver [(''vol2'', 2)]" "''vol2''"]
    get_lun_from_name_correct [of "example_driver [(''vol2'', 2)]" "''vol9''"]
  by (simp add: example_driver_def)

subsection \<open>What the helpers leave alone\<close>

lemma allocate_lun_number_frame [simp]:
  "name_map (snd (allocate_lun_number st)) = name_map st"
  "rest_trace (snd (allocate_lun_number st)) = rest_trace st"
  by (simp_all add: allocate_lun_number_def split: option.splits)

lemma allocate_lun_number_Inr:
  "allocate_lun_number st = (Inr l, st') \<Longrightarrow> st' = st"
  by (auto simp: allocate_lun_number_def split: option.splits)

lemma set_bucket_name_map_eq:
  "set_bucket_name_map be st =
     (case be (rest_trace st) (persist_call st (name_map st)) of
        Inl e \<Rightarrow> Inl e | Inr rsp \<Rightarrow> Inr (),
      st\<lparr>rest_trace := rest_trace st @ [persist_call st (name_map st)]\<rparr>)"
  by (simp add: set_bucket_name_map_def restapi_def persist_call_def split: sum.splits)

lemma log_and_reraise_frame [simp]:
  "fst (log_and_reraise msg r) = fst r"
  "name_map (snd (log_and_reraise msg r)) = name_map (snd r)"
  "rest_trace (snd (log_and_reraise msg r)) = rest_trace (snd r)"
  by (auto simp: log_and_reraise_def split: prod.splits sum.splits exn.splits)

subsection \<open>Deleting a volume whose REST call fails\<close>

text \<open>
  Claim C4. When the name of the volume is in the map, with LUN number \<open>l\<close>, and the
  backend answers the DELETE of that LUN with an exception \<open>e\<close>, then
  \<^verbatim>\<open>delete_volume\<close> raises \<open>e\<close>, the map is the one before the call (the item is
  still there) and the DELETE is the only REST call issued: the map is not written.
\<close>

theorem delete_volume_rest_failure:
  "map_of (name_map st) (vol_name volume) = Some l \<Longrightarrow>
   be (rest_trace st) (delete_lun_call st l) = Inl e \<Longrightarrow>
   fst (delete_volume be st volume) = Inl e \<and>
   name_map (snd (delete_volume be st volume)) = name_map st \<and>
   rest_trace (snd (delete_volume be st volume)) = rest_trace st @ [delete_lun_call st l]"
  by (simp add: delete_volume_def get_lun_from_name_eq restapi_def delete_lun_call_def)

theorem delete_volume_rest_failure_witness:
  "map_of (name_map (example_driver [(''vol2'', 2)])) (vol_name (example_volume ''vol2''))
     = Some 2 \<and>
   backend_fail_at 0 (NexentaException ''boom'')
     (rest_trace (example_driver [(''vol2'', 2)]))
     (delete_lun_call (example_driver [(''vol2'', 2)]) 2)
     = Inl (NexentaException ''boom'') \<and>
   fst (delete_volume (backend_fail_at 0 (NexentaException ''boom''))
          (example_driver [(''vol2'', 2)]) (example_volume ''vol2''))
     = Inl (NexentaException ''boom'') \<and>
   name_map (snd (delete_volume (backend_fail_at 0 (NexentaException ''boom''))
                    (example_driver [(''vol2'', 2)]) (example_volume ''vol2'')))
     = [(''vol2'', 2)]"
  using delete_volume_rest_failure [of "example_driver [(''vol2'', 2)]"
      "example_volume ''vol2''" 2
      "backend_fail_at 0 (NexentaException ''boom'')" "NexentaException ''boom''"]
  by (simp add: example_driver_def example_volume_def backend_fail_at_def)

subsection \<open>Operations that do not touch the map\<close>

text \<open>
  Claim C9. \<^verbatim>\<open>extend_volume\<close>, \<^verbatim>\<open>create_snapshot\<close> and \<^verbatim>\<open>delete_snapshot\<close> leave
  the name map as it was, whatever the backend answers and whether they return or
  raise, and they issue no PUT: the PUT calls of the trace after the operation are
  those of the trace before it.
\<close>

theorem snapshot_and_extend_frame:
  "name_map (snd (extend_volume be st volume new_size)) = name_map st \<and>
   filter is_PUT (rest_trace (snd (extend_volume be st volume new_size)))
     = filter is_PUT (rest_trace st) \<and>
   name_map (snd (create_snapshot be st snapshot)) = name_map st \<and>
   filter is_PUT (rest_trace (snd (create_snapshot be st snapshot)))
     = filter is_PUT (rest_trace st) \<and>
   name_map (snd (delete_snapshot be st snapshot)) = name_map st \<and>
   filter is_PUT (rest_trace (snd (delete_snapshot be st snapshot)))
     = filter is_PUT (rest_trace st)"
  by (simp add: extend_volume_def create_snapshot_def delete_snapshot_def
      get_lun_from_name_eq restapi_def split: option.splits sum.splits)

subsection \<open>Creating a volume, outcome by outcome\<close>

lemma allocate_lun_number_fst_Inr:
  "fst (allocate_lun_number st) = Inr l \<Longrightarrow> allocate_lun_number st = (Inr l, st)"
  by (auto simp: allocate_lun_number_def split: option.splits)

lemma allocate_lun_number_fst_Inl:
  "fst (allocate_lun_number st) = Inl e \<Longrightarrow>
   \<exists>st1. allocate_lun_number st = (Inl e, st1) \<and> name_map st1 = name_map st \<and>
         rest_trace st1 = rest_trace st"
  by (auto simp: allocate_lun_number_def split: option.splits)

lemma create_volume_alloc_fail:
  assumes "fst (allocate_lun_number st) = Inl e"
  shows "fst (create_volume be st volume) = Inl e \<and>
         name_map (snd (create_volume be st volume)) = name_map st \<and>
         rest_trace (snd (create_volume be st volume)) = rest_trace st"
proof -
  from allocate_lun_number_fst_Inl [OF assms] obtain st1 where
    "allocate_lun_number st = (Inl e, st1)" "name_map st1 = name_map st"
    "rest_trace st1 = rest_trace st" by blast
  then show ?thesis by (simp add: create_volume_def)
qed

lemma create_volume_post_fail:
  assumes "fst (allocate_lun_number st) = Inr l"
    and "be (rest_trace st) (create_lun_call st l (vol_size volume)) = Inl e"
  shows "fst (create_volume be st volume) = Inl e \<and>
         name_map (snd (create_volume be st volume)) = name_map st \<and>
         rest_trace (snd (create_volume be st volume))
           = rest_trace st @ [create_lun_call st l (vol_size volume)]"
  using allocate_lun_number_fst_Inr [OF assms(1)] assms(2)
  by (simp add: create_volume_def restapi_def create_lun_call_def log_and_reraise_def
      split: exn.splits)

lemma create_volume_put_fail:
  assumes "fst (allocate_lun_number st) = Inr l"
    and "be (rest_trace st) (create_lun_call st l (vol_size volume)) = Inr rsp"
    and "be (rest_trace st @ [create_lun_call st l (vol_size volume)])
           (persist_call st (AList.update (vol_name volume) l (name_map st))) = Inl e"
  shows "fst (create_volume be st volume) = Inl e \<and>
         name_map (snd (create_volume be st volume))
           = AList.update (vol_name volume) l (name_map st) \<and>
         rest_trace (snd (create_volume be st volume))
           = rest_trace st @ [create_lun_call st l (vol_size volume),
                persist_call st (AList.update (vol_name volume) l (name_map st))]"
  using allocate_lun_number_fst_Inr [OF assms(1)] assms(2,3)
  by (simp add: create_volume_def restapi_def create_lun_call_def log_and_reraise_def
      set_bucket_name_map_eq persist_call_def split: exn.splits)

lemma create_volume_success:
  assumes "fst (allocate_lun_number st) = Inr l"
    and "be (rest_trace st) (create_lun_call st l (vol_size volume)) = Inr rsp"
    and "be (rest_trace st @ [create_lun_call st l (vol_size volume)])
           (persist_call st (AList.update (vol_name volume) l (name_map st))) = Inr rsp2"
  shows "fst (create_volume be st volume)
           = Inr (restapi_host st @ '':'' @ str (iscsi_target_portal_port st) @ '',1 ''
                  @ target_name st @ '' '' @ str l) \<and>
         name_map (snd (create_volume be st volume))
           = AList.update (vol_name volume) l (name_map st) \<and>
         rest_trace (snd (create_volume be st volume))
           = rest_trace st @ [create_lun_call st l (vol_size volume),
                persist_call st (AList.update (vol_name volume) l (name_map st))]"
  using allocate_lun_number_fst_Inr [OF assms(1)] assms(2,3)
  by (simp add: create_volume_def restapi_def create_lun_call_def log_and_reraise_def
      set_bucket_name_map_eq persist_call_def get_provider_location_def
      get_lun_from_name_eq update_conv')

text \<open>A successful create has put the allocated number under the name.\<close>

lemma create_volume_Inr:
  assumes "fst (create_volume be st volume) = Inr loc"
  shows "\<exists>l. fst (allocate_lun_number st) = Inr l \<and>
             name_map (snd (create_volume be st volume))
               = AList.update (vol_name volume) l (name_map st)"
proof (cases "fst (allocate_lun_number st)")
  case (Inl e)
  from create_volume_alloc_fail [OF this, of be volume] assms show ?thesis by simp
next
  case (Inr l)
  show ?thesis
  proof (cases "be (rest_trace st) (create_lun_call st l (vol_size volume))")
    case (Inl e)
    from create_volume_post_fail [where be = be, OF Inr this] assms show ?thesis by simp
  next
    case post: (Inr rsp)
    show ?thesis
    proof (cases "be (rest_trace st @ [create_lun_call st l (vol_size volume)])
           (persist_call st (AList.update (vol_name volume) l (name_map st)))")
      case (Inl e)
      from create_volume_put_fail [where be = be, OF Inr post this] assms show ?thesis by simp
    next
      case put: (Inr rsp2)
      from create_volume_success [where be = be, OF Inr post this] Inr show ?thesis by simp
    qed
  qed
qed

lemma create_volume_name_map:
  "name_map (snd (create_volume be st volume)) = name_map st \<or>
   (\<exists>l. fst (allocate_lun_number st) = Inr l \<and>
        name_map (snd (create_volume be st volume))
          = AList.update (vol_name volume) l (name_map st))"
proof (cases "fst (allocate_lun_number st)")
  case (Inl e)
  from create_volume_alloc_fail [OF this, of be volume] show ?thesis by simp
next
  case (Inr l)
  show ?thesis
  proof (cases "be (rest_trace st) (create_lun_call st l (vol_size volume))")
    case (Inl e)
    from create_volume_post_fail [where be = be, OF Inr this] show ?thesis by simp
  next
    case post: (Inr rsp)
    show ?thesis
    proof (cases "be (rest_trace st @ [create_lun_call st l (vol_size volume)])
           (persist_call st (AList.update (vol_name volume) l (name_map st)))")
      case (Inl e)
      from create_volume_put_fail [where be = be, OF Inr post this] Inr show ?thesis by simp
    next
      case put: (Inr rsp2)
      from create_volume_success [where be = be, OF Inr post this] Inr show ?thesis by simp
    qed
  qed
qed

lemma delete_volume_name_map:
  "name_map (snd (delete_volume be st volume)) = name_map st \<or>
   name_map (snd (delete_volume be st volume)) = AList.delete (vol_name volume) (name_map st)"
  by (auto simp: delete_volume_def get_lun_from_name_eq restapi_def dict_pop_def
      set_bucket_name_map_eq split: option.splits sum.splits)

lemma delete_volume_Inr:
  "fst (delete_volume be st volume) = Inr u \<Longrightarrow>
   name_map (snd (delete_volume be st volume)) = AList.delete (vol_name volume) (name_map st)"
  by (auto simp: delete_volume_def get_lun_from_name_eq restapi_def dict_pop_def
      set_bucket_name_map_eq split: option.splits sum.splits)

lemma create_volume_from_snapshot_name_map:
  "name_map (snd (create_volume_from_snapshot be st volume snapshot)) = name_map st \<or>
   (\<exists>l. fst (allocate_lun_number st) = Inr l \<and>
        name_map (snd (create_volume_from_snapshot be st volume snapshot))
          = AList.update (vol_name volume) l (name_map st))"
proof (cases "map_of (name_map st) (snap_volume_name snapshot)")
  case None
  then show ?thesis by (simp add: create_volume_from_snapshot_def get_lun_from_name_eq)
next
  case (Some s)
  show ?thesis
  proof (cases "fst (allocate_lun_number st)")
    case (Inl e)
    from allocate_lun_number_fst_Inl [OF this] Some show ?thesis
      by (auto simp: create_volume_from_snapshot_def get_lun_from_name_eq)
  next
    case (Inr l)
    from allocate_lun_number_fst_Inr [OF this] Some Inr show ?thesis
      by (auto simp: create_volume_from_snapshot_def get_lun_from_name_eq restapi_def
          set_bucket_name_map_eq split: sum.splits)
  qed
qed

subsection \<open>Cloning a volume, outcome by outcome\<close>

lemma create_cloned_volume_lookup_fail:
  assumes "map_of (name_map st) (vol_name src_vref) = None"
  shows "fst (create_cloned_volume be st volume src_vref)
           = Inl (NexentaException
                    (''Bucket metadata map missing volume: '' @ vol_name src_vref)) \<and>
         name_map (snd (create_cloned_volume be st volume src_vref)) = name_map st \<and>
         rest_trace (snd (create_cloned_volume be st volume src_vref)) = rest_trace st"
  using assms by (simp add: create_cloned_volume_def get_lun_from_name_eq)

lemma create_cloned_volume_alloc_fail:
  assumes "map_of (name_map st) (vol_name src_vref) = Some s"
    and "fst (allocate_lun_number st) = Inl e"
  shows "fst (create_cloned_volume be st volume src_vref) = Inl e \<and>
         name_map (snd (create_cloned_volume be st volume src_vref)) = name_map st \<and>
         rest_trace (snd (create_cloned_volume be st volume src_vref)) = rest_trace st"
  using allocate_lun_number_fst_Inl [OF assms(2)] assms(1)
  by (auto simp: create_cloned_volume_def get_lun_from_name_eq)

lemma create_cloned_volume_clone_fail:
  assumes "map_of (name_map st) (vol_name src_vref) = Some s"
    and "fst (allocate_lun_number st) = Inr l"
    and "be (rest_trace st) (clone_call st s l) = Inl e"
  shows "fst (create_cloned_volume be st volume src_vref) = Inl e \<and>
         name_map (snd (create_cloned_volume be st volume src_vref)) = name_map st \<and>
         rest_trace (snd (create_cloned_volume be st volume src_vref))
           = rest_trace st @ [clone_call st s l]"
  using allocate_lun_number_fst_Inr [OF assms(2)] assms(1,3)
  by (simp add: create_cloned_volume_def get_lun_from_name_eq restapi_def clone_call_def
      log_and_reraise_def split: exn.splits)

lemma create_cloned_volume_create_fail:
  assumes "map_of (name_map st) (vol_name src_vref) = Some s"
    and "fst (allocate_lun_number st) = Inr l"
    and "be (rest_trace st) (clone_call st s l) = Inr rsp"
    and "be (rest_trace st @ [clone_call st s l])
           (create_lun_call st l (vol_size src_vref)) = Inl e"
  shows "fst (create_cloned_volume be st volume src_vref) = Inl e \<and>
         name_map (snd (create_cloned_volume be st volume src_vref)) = name_map st \<and>
         rest_trace (snd (create_cloned_volume be st volume src_vref))
           = rest_trace st @ [clone_call st s l, create_lun_call st l (vol_size src_vref)]"
  using allocate_lun_number_fst_Inr [OF assms(2)] assms(1,3,4)
  by (simp add: create_cloned_volume_def get_lun_from_name_eq restapi_def clone_call_def
      create_lun_call_def iscsi_body_def log_and_reraise_def split: exn.splits)

lemma create_cloned_volume_commit:
  assumes "map_of (name_map st) (vol_name src_vref) = Some s"
    and "fst (allocate_lun_number st) = Inr l"
    and "be (rest_trace st) (clone_call st s l) = Inr rsp"
    and "be (rest_trace st @ [clone_call st s l])
           (create_lun_call st l (vol_size src_vref)) = Inr rsp2"
  shows "fst (create_cloned_volume be st volume src_vref)
           = (case be (rest_trace st @ [clone_call st s l,
                         create_lun_call st l (vol_size src_vref)])
                     (persist_call st (AList.update (vol_name volume) l (name_map st))) of
                Inl e \<Rightarrow> Inl e | Inr rsp3 \<Rightarrow> Inr ()) \<and>
         name_map (snd (create_cloned_volume be st volume src_vref))
           = AList.update (vol_name volume) l (name_map st) \<and>
         rest_trace (snd (create_cloned_volume be st volume src_vref))
           = rest_trace st @ [clone_call st s l, create_lun_call st l (vol_size src_vref),
               persist_call st (AList.update (vol_name volume) l (name_map st))]"
  using allocate_lun_number_fst_Inr [OF assms(2)] assms(1,3,4)
  by (simp add: create_cloned_volume_def get_lun_from_name_eq restapi_def clone_call_def
      create_lun_call_def iscsi_body_def persist_call_def set_bucket_name_map_eq)

lemma create_cloned_volume_name_map:
  "name_map (snd (create_cloned_volume be st volume src_vref)) = name_map st \<or>
   (\<exists>l. fst (allocate_lun_number st) = Inr l \<and>
        name_map (snd (create_cloned_volume be st volume src_vref))
          = AList.update (vol_name volume) l (name_map st))"
proof (cases "map_of (name_map st) (vol_name src_vref)")
  case None
  from create_cloned_volume_lookup_fail [OF this] show ?thesis by simp
next
  case (Some s)
  show ?thesis
  proof (cases "fst (allocate_lun_number st)")
    case (Inl e)
    from create_cloned_volume_alloc_fail [OF Some this] show ?thesis by simp
  next
    case (Inr l)
    show ?thesis
    proof (cases "be (rest_trace st) (clone_call st s l)")
      case (Inl e)
      from create_cloned_volume_clone_fail [where be = be, OF Some Inr this]
      show ?thesis by simp
    next
      case clone: (Inr rsp)
      show ?thesis
      proof (cases "be (rest_trace st @ [clone_call st s l])
           (create_lun_call st l (vol_size src_vref))")
        case (Inl e)
        from create_cloned_volume_create_fail [where be = be, OF Some Inr clone this]
        show ?thesis by simp
      next
        case (Inr rsp2)
        from create_cloned_volume_commit [where be = be, OF Some \<open>fst (allocate_lun_number st) = Inr l\<close> clone this]
          \<open>fst (allocate_lun_number st) = Inr l\<close>
        show ?thesis by simp
      qed
    qed
  qed
qed

subsection \<open>The invariant of the name map\<close>

lemma allocate_lun_number_fresh:
  assumes "fst (allocate_lun_number st) = Inr l"
  shows "1 \<le> l \<and> l \<le> 255 \<and> l \<notin> lun_numbers (name_map st)"
proof -
  from assms have "scan_luns (name_map st) [1..255] = Some l"
    by (auto simp: allocate_lun_number_def split: option.splits)
  from scan_luns_Some [OF this] show ?thesis by simp
qed

lemma lun_numbers_update_subset:
  "lun_numbers (AList.update k l m) \<subseteq> insert l (lun_numbers m)"
  by (induction m) (auto simp: lun_numbers_def)

lemma distinct_values_update:
  "distinct (map snd m) \<Longrightarrow> l \<notin> lun_numbers m \<Longrightarrow> distinct (map snd (AList.update k l m))"
proof (induction m)
  case Nil
  then show ?case by simp
next
  case (Cons p m)
  obtain k' v where p: "p = (k', v)" by (cases p)
  from Cons.prems have l: "l \<notin> lun_numbers m" "l \<noteq> v" and d: "distinct (map snd m)"
    and v: "v \<notin> snd ` set m"
    by (auto simp: lun_numbers_def p)
  show ?case
  proof (cases "k' = k")
    case True
    with l d show ?thesis by (auto simp: p lun_numbers_def)
  next
    case False
    have "v \<notin> lun_numbers (AList.update k l m)"
      using lun_numbers_update_subset [of k l m] v l by (auto simp: lun_numbers_def)
    with False Cons.IH [OF d l(1)] show ?thesis by (simp add: p lun_numbers_def)
  qed
qed

lemma lun_inv_iff:
  "lun_inv m \<longleftrightarrow> distinct (map snd m) \<and> (\<forall>v \<in> lun_numbers m. 1 \<le> v \<and> v \<le> 255)"
  by (auto simp: lun_inv_def list_all_iff lun_numbers_def)

lemma lun_inv_update:
  assumes "lun_inv m" "1 \<le> l" "l \<le> 255" "l \<notin> lun_numbers m"
  shows "lun_inv (AList.update k l m)"
proof -
  have "\<forall>v \<in> lun_numbers (AList.update k l m). 1 \<le> v \<and> v \<le> 255"
    using lun_numbers_update_subset [of k l m] assms
    unfolding lun_inv_iff by blast
  with distinct_values_update [of m l k] assms show ?thesis
    unfolding lun_inv_iff by blast
qed

lemma lun_inv_delete: "lun_inv m \<Longrightarrow> lun_inv (AList.delete k m)"
  by (auto simp: lun_inv_def AList.delete_eq list_all_iff distinct_map_filter)

lemma dict_wf_update: "dict_wf m \<Longrightarrow> dict_wf (AList.update k l m)"
  by (simp add: dict_wf_def distinct_update)

lemma dict_wf_delete: "dict_wf m \<Longrightarrow> dict_wf (AList.delete k m)"
  by (simp add: dict_wf_def distinct_delete)

text \<open>
  Claim C5. Let the name map be a dict in which no LUN number is the value of two
  items and every value lies between 1 and 255. After \<^verbatim>\<open>create_volume\<close>,
  \<^verbatim>\<open>delete_volume\<close>, \<^verbatim>\<open>create_volume_from_snapshot\<close> or \<^verbatim>\<open>create_cloned_volume\<close>,
  whatever the backend answers and whether the operation returns or raises, the map
  is again such a dict.
\<close>

theorem mutating_operations_preserve_invariant:
  assumes "dict_wf (name_map st)" and "lun_inv (name_map st)"
  shows "lun_inv (name_map (snd (create_volume be st volume))) \<and>
         dict_wf (name_map (snd (create_volume be st volume))) \<and>
         lun_inv (name_map (snd (delete_volume be st volume))) \<and>
         dict_wf (name_map (snd (delete_volume be st volume))) \<and>
         lun_inv (name_map (snd (create_volume_from_snapshot be st volume snapshot))) \<and>
         dict_wf (name_map (snd (create_volume_from_snapshot be st volume snapshot))) \<and>
         lun_inv (name_map (snd (create_cloned_volume be st volume src_vref))) \<and>
         dict_wf (name_map (snd (create_cloned_volume be st volume src_vref)))"
proof -
  have upd: "lun_inv (AList.update k l (name_map st)) \<and> dict_wf (AList.update k l (name_map st))"
    if "fst (allocate_lun_number st) = Inr l" for k l
    using allocate_lun_number_fresh [OF that] assms
    by (simp add: lun_inv_update dict_wf_update)
  have del: "lun_inv (AList.delete k (name_map st)) \<and> dict_wf (AList.delete k (name_map st))" for k
    using assms by (simp add: lun_inv_delete dict_wf_delete)
  have "lun_inv (name_map (snd (create_volume be st volume))) \<and>
         dict_wf (name_map (snd (create_volume be st volume)))"
    using create_volume_name_map [of be st volume] upd assms by auto
  moreover have "lun_inv (name_map (snd (delete_volume be st volume))) \<and>
         dict_wf (name_map (snd (delete_volume be st volume)))"
    using delete_volume_name_map [of be st volume] del assms by auto
  moreover have "lun_inv (name_map (snd (create_volume_from_snapshot be st volume snapshot))) \<and>
         dict_wf (name_map (snd (create_volume_from_snapshot be st volume snapshot)))"
    using create_volume_from_snapshot_name_map [of be st volume snapshot] upd assms by auto
  moreover have "lun_inv (name_map (snd (create_cloned_volume be st volume src_vref))) \<and>
         dict_wf (name_map (snd (create_cloned_volume be st volume src_vref)))"
    using create_cloned_volume_name_map [of be st volume src_vref] upd assms by auto
  ultimately show ?thesis by simp
qed

subsection \<open>Create, then delete\<close>

text \<open>
  Claim C6. When the name is not in the map, a \<^verbatim>\<open>create_volume\<close> that returns,
  followed by a \<^verbatim>\<open>delete_volume\<close> of the same volume that returns, ends with the name
  map it started from: the same items, so the same keys with the same LUN numbers.
\<close>

theorem create_then_delete_restores_map:
  assumes "map_of (name_map st) (vol_name volume) = None"
    and "fst (create_volume be st volume) = Inr loc"
    and "fst (delete_volume be' (snd (create_volume be st volume)) volume) = Inr u"
  shows "name_map (snd (delete_volume be' (snd (create_volume be st volume)) volume))
           = name_map st"
proof -
  let ?st1 = "snd (create_volume be st volume)"
  from create_volume_Inr [OF assms(2)] obtain l where
    m1: "name_map ?st1 = AList.update (vol_name volume) l (name_map st)" by auto
  from delete_volume_Inr [OF assms(3)]
  have "name_map (snd (delete_volume be' ?st1 volume))
          = AList.delete (vol_name volume) (name_map ?st1)" by simp
  also have "\<dots> = AList.delete (vol_name volume) (name_map st)"
    by (simp add: m1 delete_update_same)
  also have "\<dots> = name_map st"
    using assms(1) by (simp add: map_of_eq_None_iff)
  finally show ?thesis .
qed

subsection \<open>Evaluation on concrete drivers\<close>

text \<open>The equations that evaluate the operations on a closed driver state.\<close>

lemmas eval_defs =
  example_driver_def example_volume_def example_snapshot_def backend_ok_def
  backend_fail_at_def allocate_lun_number_def upto.simps restapi_def log_and_reraise_def
  set_bucket_name_map_def get_provider_location_def get_lun_from_name_def
  verify_name_in_map_def LOG_error_def dict_pop_def iscsi_body_def str_def digits.simps

lemma full_map_v1: "map_of full_map ''v1'' = Some 1"
proof -
  have "[1..255] = 1 # [2..255]" by (simp add: upto_rec1)
  then show ?thesis by (simp add: full_map_def str_def digits.simps)
qed

lemma allocate_full_map:
  "fst (allocate_lun_number (example_driver full_map))
     = Inl (NexentaException ''All 255 lun numbers used'')"
proof -
  have "scan_luns full_map [1..255] = None"
    by (simp add: scan_luns_None full_map_numbers)
  then show ?thesis by (simp add: allocate_lun_number_def example_driver_def)
qed

text \<open>
  The invariant on the map {vol1: 1, vol3: 3}: creating vol2 gives it the number 2,
  deleting vol1 leaves {vol3: 3}.
\<close>

theorem mutating_operations_preserve_invariant_witness:
  "dict_wf (name_map (example_driver [(''vol1'', 1), (''vol3'', 3)])) \<and>
   lun_inv (name_map (example_driver [(''vol1'', 1), (''vol3'', 3)])) \<and>
   name_map (snd (create_volume backend_ok (example_driver [(''vol1'', 1), (''vol3'', 3)])
                    (example_volume ''vol2'')))
     = [(''vol1'', 1), (''vol3'', 3), (''vol2'', 2)] \<and>
   lun_inv (name_map (snd (create_volume backend_ok
                             (example_driver [(''vol1'', 1), (''vol3'', 3)])
                             (example_volume ''vol2'')))) \<and>
   name_map (snd (delete_volume backend_ok (example_driver [(''vol1'', 1), (''vol3'', 3)])
                    (example_volume ''vol1'')))
     = [(''vol3'', 3)] \<and>
   lun_inv (name_map (snd (delete_volume backend_ok
                             (example_driver [(''vol1'', 1), (''vol3'', 3)])
                             (example_volume ''vol1''))))"
proof -
  let ?st = "example_driver [(''vol1'', 1), (''vol3'', 3)]"
  have wf: "dict_wf (name_map ?st)" by (simp add: example_driver_def dict_wf_def)
  have inv: "lun_inv (name_map ?st)" by (simp add: example_driver_def lun_inv_def)
  have c: "name_map (snd (create_volume backend_ok ?st (example_volume ''vol2'')))
     = [(''vol1'', 1), (''vol3'', 3), (''vol2'', 2)]"
    by (simp add: create_volume_def eval_defs)
  have d: "name_map (snd (delete_volume backend_ok ?st (example_volume ''vol1'')))
     = [(''vol3'', 3)]"
    by (simp add: delete_volume_def eval_defs)
  from mutating_operations_preserve_invariant [OF wf inv, of backend_ok "example_volume ''vol2''"]
    mutating_operations_preserve_invariant [OF wf inv, of backend_ok "example_volume ''vol1''"]
    wf inv c d
  show ?thesis by simp
qed

text \<open>
  On {vol2: 2}, creating vol1 allocates 1, and deleting vol1 gives {vol2: 2} back.
\<close>

theorem create_then_delete_restores_map_witness:
  "map_of (name_map (example_driver [(''vol2'', 2)])) (vol_name (example_volume ''vol1'')) = None \<and>
   fst (create_volume backend_ok (example_driver [(''vol2'', 2)]) (example_volume ''vol1''))
     = Inr ''10.0.0.1:3260,1 iqn.test 1'' \<and>
   name_map (snd (create_volume backend_ok (example_driver [(''vol2'', 2)]) (example_volume ''vol1'')))
     = [(''vol2'', 2), (''vol1'', 1)] \<and>
   fst (delete_volume backend_ok
          (snd (create_volume backend_ok (example_driver [(''vol2'', 2)]) (example_volume ''vol1'')))
          (example_volume ''vol1'')) = Inr () \<and>
   name_map (snd (delete_volume backend_ok
          (snd (create_volume backend_ok (example_driver [(''vol2'', 2)]) (example_volume ''vol1'')))
          (example_volume ''vol1''))) = [(''vol2'', 2)]"
proof -
  let ?st = "example_driver [(''vol2'', 2)]"
  let ?v = "example_volume ''vol1''"
  have a: "map_of (name_map ?st) (vol_name ?v) = None"
    by (simp add: example_driver_def example_volume_def)
  have c: "fst (create_volume backend_ok ?st ?v) = Inr ''10.0.0.1:3260,1 iqn.test 1''"
    by (simp add: create_volume_def eval_defs)
  have m: "name_map (snd (create_volume backend_ok ?st ?v)) = [(''vol2'', 2), (''vol1'', 1)]"
    by (simp add: create_volume_def eval_defs)
  have d: "fst (delete_volume backend_ok (snd (create_volume backend_ok ?st ?v)) ?v) = Inr ()"
    by (simp add: create_volume_def delete_volume_def eval_defs)
  from create_then_delete_restores_map [OF a c d] a c m d show ?thesis
    by (simp add: example_driver_def)
qed

subsection \<open>Failures of \<^verbatim>\<open>create_volume\<close>\<close>

text \<open>
  Claim C2, as the code has it. When \<^verbatim>\<open>create_volume\<close> fails before the assignment to
  the map, by exhaustion of the LUN numbers or by a failure of the create-LUN POST, the
  operation raises that error, the name map is unchanged (no new key) and no PUT of the
  map is issued: after an exhausted allocation no REST call is issued at all, after a
  failed POST the POST is the only one. When the POST succeeds and the PUT that persists
  the map fails, the operation raises that error too, and the map in memory holds the new
  item: the assignment is not undone.
\<close>

theorem create_volume_failure_before_assignment:
  "(fst (allocate_lun_number st) = Inl e \<longrightarrow>
      fst (create_volume be st volume) = Inl e \<and>
      name_map (snd (create_volume be st volume)) = name_map st \<and>
      rest_trace (snd (create_volume be st volume)) = rest_trace st) \<and>
   (fst (allocate_lun_number st) = Inr l \<and>
    be (rest_trace st) (create_lun_call st l (vol_size volume)) = Inl e \<longrightarrow>
      fst (create_volume be st volume) = Inl e \<and>
      name_map (snd (create_volume be st volume)) = name_map st \<and>
      rest_trace (snd (create_volume be st volume))
        = rest_trace st @ [create_lun_call st l (vol_size volume)]) \<and>
   (fst (allocate_lun_number st) = Inr l \<and>
    be (rest_trace st) (create_lun_call st l (vol_size volume)) = Inr rsp \<and>
    be (rest_trace st @ [create_lun_call st l (vol_size volume)])
       (persist_call st (AList.update (vol_name volume) l (name_map st))) = Inl e \<longrightarrow>
      fst (create_volume be st volume) = Inl e \<and>
      name_map (snd (create_volume be st volume))
        = AList.update (vol_name volume) l (name_map st))"
  using create_volume_alloc_fail [of st e be volume]
    create_volume_post_fail [of st l be volume e]
    create_volume_put_fail [of st l be volume rsp e]
  by blast

theorem create_volume_failure_before_assignment_witness:
  "fst (allocate_lun_number (example_driver full_map))
     = Inl (NexentaException ''All 255 lun numbers used'') \<and>
   fst (create_volume backend_ok (example_driver full_map) (example_volume ''vol1''))
     = Inl (NexentaException ''All 255 lun numbers used'') \<and>
   name_map (snd (create_volume backend_ok (example_driver full_map) (example_volume ''vol1'')))
     = full_map \<and>
   fst (allocate_lun_number (example_driver [(''vol2'', 2)])) = Inr 1 \<and>
   backend_fail_at 0 (NexentaException ''boom'') (rest_trace (example_driver [(''vol2'', 2)]))
     (create_lun_call (example_driver [(''vol2'', 2)]) 1 (vol_size (example_volume ''vol1'')))
     = Inl (NexentaException ''boom'') \<and>
   fst (create_volume (backend_fail_at 0 (NexentaException ''boom''))
          (example_driver [(''vol2'', 2)]) (example_volume ''vol1''))
     = Inl (NexentaException ''boom'') \<and>
   name_map (snd (create_volume (backend_fail_at 0 (NexentaException ''boom''))
                    (example_driver [(''vol2'', 2)]) (example_volume ''vol1'')))
     = [(''vol2'', 2)] \<and>
   backend_fail_at 1 (NexentaException ''boom'') (rest_trace (example_driver [(''vol2'', 2)]))
     (create_lun_call (example_driver [(''vol2'', 2)]) 1 (vol_size (example_volume ''vol1'')))
     = Inr empty_response \<and>
   fst (create_volume (backend_fail_at 1 (NexentaException ''boom''))
          (example_driver [(''vol2'', 2)]) (example_volume ''vol1''))
     = Inl (NexentaException ''boom'') \<and>
   name_map (snd (create_volume (backend_fail_at 1 (NexentaException ''boom''))
                    (example_driver [(''vol2'', 2)]) (example_volume ''vol1'')))
     = [(''vol2'', 2), (''vol1'', 1)]"
proof -
  let ?st = "example_driver [(''vol2'', 2)]"
  let ?v = "example_volume ''vol1''"
  let ?e = "NexentaException ''boom''"
  have m: "name_map ?st = [(''vol2'', 2)]" "rest_trace ?st = []"
    "name_map (example_driver full_map) = full_map"
    by (simp_all add: example_driver_def)
  have al: "fst (allocate_lun_number ?st) = Inr 1"
    by (simp add: eval_defs)
  have p0: "backend_fail_at 0 ?e (rest_trace ?st) (create_lun_call ?st 1 (vol_size ?v)) = Inl ?e"
    by (simp add: backend_fail_at_def m)
  have p1: "backend_fail_at 1 ?e (rest_trace ?st) (create_lun_call ?st 1 (vol_size ?v)) = Inr empty_response"
    by (simp add: backend_fail_at_def m)
  have q1: "backend_fail_at 1 ?e (rest_trace ?st @ [create_lun_call ?st 1 (vol_size ?v)])
       (persist_call ?st (AList.update (vol_name ?v) 1 (name_map ?st))) = Inl ?e"
    by (simp add: backend_fail_at_def m)
  from create_volume_failure_before_assignment
         [of "example_driver full_map" "NexentaException ''All 255 lun numbers used''"
             backend_ok ?v]
    create_volume_failure_before_assignment [of ?st ?e "backend_fail_at 0 ?e" ?v 1]
    create_volume_failure_before_assignment [of ?st ?e "backend_fail_at 1 ?e" ?v 1 empty_response]
    allocate_full_map al p0 p1 q1
  show ?thesis by (simp add: m example_volume_def)
qed

text \<open>
  Claim C2 as stated fails when the REST call that fails is the PUT of the map: on the
  empty map, with a backend whose second call fails, \<^verbatim>\<open>create_volume\<close> raises and the
  map has the new key vol1.
\<close>

theorem create_volume_persist_failure_counterexample:
  "fst (create_volume (backend_fail_at 1 (BackendError ''timeout'')) (example_driver [])
          (example_volume ''vol1'')) = Inl (BackendError ''timeout'') \<and>
   name_map (example_driver []) = [] \<and>
   name_map (snd (create_volume (backend_fail_at 1 (BackendError ''timeout''))
                    (example_driver []) (example_volume ''vol1''))) = [(''vol1'', 1)]"
  by (simp add: create_volume_def eval_defs)

subsection \<open>The order of the steps of \<^verbatim>\<open>create_cloned_volume\<close>\<close>

text \<open>
  Claim C8, as the code has it. \<^verbatim>\<open>create_cloned_volume\<close> looks the source name up, then
  allocates the new LUN number, then issues the clone POST on the source object (its body
  names the new number), then the create-LUN POST for the new number, and only after
  both have succeeded assigns the new item to the map and PUTs the map. So: a failed
  lookup or a failed allocation issues no REST call; a failed clone POST leaves the trace
  with that call alone; a failed create-LUN POST leaves the two POSTs; in all these
  cases the map is unchanged; and when both POSTs succeed the map has the new item, the
  PUT carries that map, and the result is the result of the PUT.
\<close>

theorem create_cloned_volume_order:
  "(map_of (name_map st) (vol_name src_vref) = None \<longrightarrow>
      fst (create_cloned_volume be st volume src_vref)
        = Inl (NexentaException
                 (''Bucket metadata map missing volume: '' @ vol_name src_vref)) \<and>
      name_map (snd (create_cloned_volume be st volume src_vref)) = name_map st \<and>
      rest_trace (snd (create_cloned_volume be st volume src_vref)) = rest_trace st) \<and>
   (map_of (name_map st) (vol_name src_vref) = Some s \<and>
    fst (allocate_lun_number st) = Inl e \<longrightarrow>
      fst (create_cloned_volume be st volume src_vref) = Inl e \<and>
      name_map (snd (create_cloned_volume be st volume src_vref)) = name_map st \<and>
      rest_trace (snd (create_cloned_volume be st volume src_vref)) = rest_trace st) \<and>
   (map_of (name_map st) (vol_name src_vref) = Some s \<and>
    fst (allocate_lun_number st) = Inr l \<and>
    be (rest_trace st) (clone_call st s l) = Inl e \<longrightarrow>
      fst (create_cloned_volume be st volume src_vref) = Inl e \<and>
      name_map (snd (create_cloned_volume be st volume src_vref)) = name_map st \<and>
      rest_trace (snd (create_cloned_volume be st volume src_vref))
        = rest_trace st @ [clone_call st s l]) \<and>
   (map_of (name_map st) (vol_name src_vref) = Some s \<and>
    fst (allocate_lun_number st) = Inr l \<and>
    be (rest_trace st) (clone_call st s l) = Inr rsp \<and>
    be (rest_trace st @ [clone_call st s l]) (create_lun_call st l (vol_size src_vref))
      = Inl e \<longrightarrow>
      fst (create_cloned_volume be st volume src_vref) = Inl e \<and>
      name_map (snd (create_cloned_volume be st volume src_vref)) = name_map st \<and>
      rest_trace (snd (create_cloned_volume be st volume src_vref))
        = rest_trace st @ [clone_call st s l, create_lun_call st l (vol_size src_vref)]) \<and>
   (map_of (name_map st) (vol_name src_vref) = Some s \<and>
    fst (allocate_lun_number st) = Inr l \<and>
    be (rest_trace st) (clone_call st s l) = Inr rsp \<and>
    be (rest_trace st @ [clone_call st s l]) (create_lun_call st l (vol_size src_vref))
      = Inr rspb \<longrightarrow>
      fst (create_cloned_volume be st volume src_vref)
        = (case be (rest_trace st @ [clone_call st s l,
                      create_lun_call st l (vol_size src_vref)])
                  (persist_call st (AList.update (vol_name volume) l (name_map st))) of
             Inl e' \<Rightarrow> Inl e' | Inr rsp3 \<Rightarrow> Inr ()) \<and>
      name_map (snd (create_cloned_volume be st volume src_vref))
        = AList.update (vol_name volume) l (name_map st) \<and>
      rest_trace (snd (create_cloned_volume be st volume src_vref))
        = rest_trace st @ [clone_call st s l, create_lun_call st l (vol_size src_vref),
            persist_call st (AList.update (vol_name volume) l (name_map st))])"
  using create_cloned_volume_lookup_fail [of st src_vref be volume]
    create_cloned_volume_alloc_fail [of st src_vref s e be volume]
    create_cloned_volume_clone_fail [of st src_vref s l be e volume]
    create_cloned_volume_create_fail [of st src_vref s l be rsp e volume]
    create_cloned_volume_commit [of st src_vref s l be rsp rspb volume]
  by blast

theorem create_cloned_volume_order_witness:
  "map_of (name_map (example_driver [(''vol1'', 1)])) (vol_name (example_volume ''vol9'')) = None \<and>
   rest_trace (snd (create_cloned_volume backend_ok (example_driver [(''vol1'', 1)])
                      (example_volume ''vol2'') (example_volume ''vol9''))) = [] \<and>
   map_of (name_map (example_driver full_map)) (vol_name (example_volume ''v1'')) = Some 1 \<and>
   fst (allocate_lun_number (example_driver full_map))
     = Inl (NexentaException ''All 255 lun numbers used'') \<and>
   rest_trace (snd (create_cloned_volume backend_ok (example_driver full_map)
                      (example_volume ''vol2'') (example_volume ''v1''))) = [] \<and>
   map_of (name_map (example_driver [(''vol1'', 1)])) (vol_name (example_volume ''vol1'')) = Some 1 \<and>
   fst (allocate_lun_number (example_driver [(''vol1'', 1)])) = Inr 2 \<and>
   fst (create_cloned_volume (backend_fail_at 0 (NexentaException ''boom''))
          (example_driver [(''vol1'', 1)]) (example_volume ''vol2'') (example_volume ''vol1''))
     = Inl (NexentaException ''boom'') \<and>
   rest_trace (snd (create_cloned_volume (backend_fail_at 0 (NexentaException ''boom''))
          (example_driver [(''vol1'', 1)]) (example_volume ''vol2'') (example_volume ''vol1'')))
     = [clone_call (example_driver [(''vol1'', 1)]) 1 2] \<and>
   fst (create_cloned_volume (backend_fail_at 1 (NexentaException ''boom''))
          (example_driver [(''vol1'', 1)]) (example_volume ''vol2'') (example_volume ''vol1''))
     = Inl (NexentaException ''boom'') \<and>
   name_map (snd (create_cloned_volume (backend_fail_at 1 (NexentaException ''boom''))
          (example_driver [(''vol1'', 1)]) (example_volume ''vol2'') (example_volume ''vol1'')))
     = [(''vol1'', 1)] \<and>
   fst (create_cloned_volume backend_ok
          (example_driver [(''vol1'', 1)]) (example_volume ''vol2'') (example_volume ''vol1''))
     = Inr () \<and>
   name_map (snd (create_cloned_volume backend_ok
          (example_driver [(''vol1'', 1)]) (example_volume ''vol2'') (example_volume ''vol1'')))
     = [(''vol1'', 1), (''vol2'', 2)] \<and>
   rest_trace (snd (create_cloned_volume backend_ok
          (example_driver [(''vol1'', 1)]) (example_volume ''vol2'') (example_volume ''vol1'')))
     = [clone_call (example_driver [(''vol1'', 1)]) 1 2,
        create_lun_call (example_driver [(''vol1'', 1)]) 2 10,
        persist_call (example_driver [(''vol1'', 1)]) [(''vol1'', 1), (''vol2'', 2)]]"
proof -
  let ?st = "example_driver [(''vol1'', 1)]"
  let ?v = "example_volume ''vol2''"
  let ?src = "example_volume ''vol1''"
  let ?e = "NexentaException ''boom''"
  have m: "name_map ?st = [(''vol1'', 1)]" "rest_trace ?st = []"
    "name_map (example_driver full_map) = full_map"
    "rest_trace (example_driver full_map) = []"
    by (simp_all add: example_driver_def)
  have vn: "vol_name (example_volume n) = n" "vol_size (example_volume n) = 10" for n
    by (simp_all add: example_volume_def)
  have al: "fst (allocate_lun_number ?st) = Inr 2"
    by (simp add: eval_defs)
  have full: "map_of (name_map (example_driver full_map)) (vol_name (example_volume ''v1''))
               = Some 1"
    by (simp add: m vn full_map_v1)
  have b: "backend_fail_at 0 ?e [] c = Inl ?e" "backend_fail_at (Suc 0) ?e [] c = Inr empty_response"
    "backend_fail_at (Suc 0) ?e [c] c' = Inl ?e" "backend_ok tr c = Inr empty_response" for c c' tr
    by (simp_all add: backend_fail_at_def backend_ok_def)
  from create_cloned_volume_order [where st = ?st and src_vref = "example_volume ''vol9''"
        and be = backend_ok and volume = ?v]
    create_cloned_volume_order [where st = "example_driver full_map"
        and src_vref = "example_volume ''v1''" and be = backend_ok and volume = ?v and s = 1
        and e = "NexentaException ''All 255 lun numbers used''"]
    create_cloned_volume_order [where st = ?st and src_vref = ?src
        and be = "backend_fail_at 0 ?e" and volume = ?v and s = 1 and e = ?e and l = 2]
    create_cloned_volume_order [where st = ?st and src_vref = ?src
        and be = "backend_fail_at 1 ?e" and volume = ?v and s = 1 and e = ?e and l = 2
        and rsp = empty_response]
    create_cloned_volume_order [where st = ?st and src_vref = ?src
        and be = backend_ok and volume = ?v and s = 1 and l = 2
        and rsp = empty_response and rspb = empty_response]
    al full allocate_full_map
  show ?thesis by (simp add: m vn b)
qed

text \<open>
  Claim C8 as stated puts the clone call before the allocation. On the full map, with
  the source v1 in the map and a backend that would accept every call, the operation
  fails in the allocation and has issued no REST call: the clone call does not come
  before the allocation.
\<close>

theorem create_cloned_volume_order_counterexample:
  "fst (get_lun_from_name (example_driver full_map) (vol_name (example_volume ''v1''))) = Inr 1 \<and>
   fst (create_cloned_volume backend_ok (example_driver full_map)
          (example_volume ''clone'') (example_volume ''v1''))
     = Inl (NexentaException ''All 255 lun numbers used'') \<and>
   rest_trace (example_driver full_map) = [] \<and>
   rest_trace (snd (create_cloned_volume backend_ok (example_driver full_map)
          (example_volume ''clone'') (example_volume ''v1''))) = []"
proof -
  have look: "map_of (name_map (example_driver full_map)) (vol_name (example_volume ''v1''))
                = Some 1"
    by (simp add: example_driver_def example_volume_def full_map_v1)
  from create_cloned_volume_alloc_fail [OF look allocate_full_map] look
  show ?thesis by (simp add: get_lun_from_name_eq) (simp add: example_driver_def)
qed

subsection \<open>Errors during setup\<close>

text \<open>
  Claim C7 at \<^verbatim>\<open>do_setup\<close>: when the GET of the iSCSI status raises, \<^verbatim>\<open>do_setup\<close>
  does not raise. It returns normally, with the exception object as its value, and
  neither \<^verbatim>\<open>self.target_name\<close> nor \<^verbatim>\<open>self.name_map\<close> has been assigned.
\<close>

theorem do_setup_returns_the_exception:
  "fst (do_setup (backend_fail_at 0 (BackendError ''connection refused'')) example_new_driver)
     = Inr (Some (BackendError ''connection refused'')) \<and>
   nd_target_name (snd (do_setup (backend_fail_at 0 (BackendError ''connection refused''))
                          example_new_driver)) = None \<and>
   nd_name_map (snd (do_setup (backend_fail_at 0 (BackendError ''connection refused''))
                       example_new_driver)) = None"
  by (simp add: do_setup_def nd_restapi_get_def nd_LOG_error_def example_new_driver_def
      backend_fail_at_def)

subsection \<open>Creating a volume whose name is already in the map\<close>

text \<open>Overwriting the item of a key frees its old value, when no other item holds it.\<close>

lemma lun_numbers_update_present:
  "dict_wf m \<Longrightarrow> distinct (map snd m) \<Longrightarrow> map_of m n = Some old \<Longrightarrow>
   lun_numbers (AList.update n new m) = insert new (lun_numbers m - {old})"
proof (induction m)
  case Nil
  then show ?case by simp
next
  case (Cons p m)
  obtain k v where p: "p = (k, v)" by (cases p)
  from Cons.prems have wf: "dict_wf m" and d: "distinct (map snd m)"
    and v: "v \<notin> snd ` set m"
    by (auto simp: dict_wf_def p)
  show ?case
  proof (cases "k = n")
    case True
    with Cons.prems(3) have "v = old" by (simp add: p)
    with True v show ?thesis by (auto simp: p lun_numbers_def)
  next
    case False
    with Cons.prems(3) have look: "map_of m n = Some old" by (simp add: p)
    then have "old \<in> snd ` set m" by (metis map_of_SomeD image_eqI snd_conv)
    with v have "v \<noteq> old" by auto
    with False Cons.IH [OF wf d look] show ?thesis
      by (auto simp: p lun_numbers_def)
  qed
qed

text \<open>
  Claim C10, as the code has it. \<^verbatim>\<open>create_volume\<close> does not ask for the name to be
  absent. For every name map that already maps the name of the volume, to \<open>old\<close>, a
  \<^verbatim>\<open>create_volume\<close> that returns has allocated a number \<open>new\<close> that was not a value of
  the map and has overwritten the item of the name: the map is the old one with the name
  now on \<open>new\<close>, with the same keys. When moreover the map satisfies the invariant of
  the name map (a dict whose values are distinct and lie in 1..255), the number \<open>old\<close>
  is then the value of no item and is available again: the next allocation succeeds and
  returns a number not above \<open>old\<close>.
\<close>

theorem create_volume_overwrites_existing:
  assumes present: "map_of (name_map st) (vol_name volume) = Some old"
    and ok: "fst (create_volume be st volume) = Inr loc"
  shows "\<exists>new. fst (allocate_lun_number st) = Inr new \<and>
           new \<notin> lun_numbers (name_map st) \<and>
           map_of (name_map (snd (create_volume be st volume)))
             = (map_of (name_map st))(vol_name volume \<mapsto> new) \<and>
           map fst (name_map (snd (create_volume be st volume))) = map fst (name_map st) \<and>
           (dict_wf (name_map st) \<and> lun_inv (name_map st) \<longrightarrow>
              old \<notin> lun_numbers (name_map (snd (create_volume be st volume))) \<and>
              (\<exists>l. fst (allocate_lun_number (snd (create_volume be st volume))) = Inr l \<and>
                   l \<le> old))"
proof -
  let ?m = "name_map st"
  let ?m' = "name_map (snd (create_volume be st volume))"
  from create_volume_Inr [OF ok] obtain new where
    al: "fst (allocate_lun_number st) = Inr new"
    and m': "?m' = AList.update (vol_name volume) new ?m" by blast
  from allocate_lun_number_fresh [OF al] have fresh: "new \<notin> lun_numbers ?m" by simp
  from present have old_in: "old \<in> lun_numbers ?m"
    unfolding lun_numbers_def by (metis map_of_SomeD image_eqI snd_conv)
  with fresh have ne: "new \<noteq> old" by auto
  from present have "vol_name volume \<in> set (map fst ?m)"
    by (metis map_of_eq_None_iff option.distinct(1) set_map)
  then have keys: "map fst ?m' = map fst ?m"
    unfolding m' by (simp add: update_keys)
  have overwritten: "map_of ?m' = (map_of ?m)(vol_name volume \<mapsto> new)"
    unfolding m' by (simp add: update_conv')
  have freed: "old \<notin> lun_numbers ?m' \<and>
      (\<exists>l. fst (allocate_lun_number (snd (create_volume be st volume))) = Inr l \<and> l \<le> old)"
    if wf: "dict_wf ?m" and inv: "lun_inv ?m"
  proof -
    from inv old_in have range: "1 \<le> old" "old \<le> 255"
      unfolding lun_inv_iff by auto
    from inv have d: "distinct (map snd ?m)" by (simp add: lun_inv_iff)
    have "lun_numbers ?m' = insert new (lun_numbers ?m - {old})"
      unfolding m' by (rule lun_numbers_update_present [OF wf d present])
    with ne have free: "old \<notin> lun_numbers ?m'" by auto
    have "\<not> set [1..255] \<subseteq> lun_numbers ?m'"
      using free range by auto
    then obtain l where l: "scan_luns ?m' [1..255] = Some l"
      using scan_luns_None [of ?m' "[1..255]"] by auto
    then have next_al: "fst (allocate_lun_number (snd (create_volume be st volume))) = Inr l"
      by (simp add: allocate_lun_number_def)
    have "l \<le> old"
    proof (rule ccontr)
      assume "\<not> l \<le> old"
      then have "old < l" by simp
      from scan_luns_least [OF l _ _ this] range have "old \<in> lun_numbers ?m'" by simp
      with free show False by simp
    qed
    with free next_al show ?thesis by blast
  qed
  from al fresh overwritten keys freed show ?thesis by blast
qed

text \<open>
  On {vol1: 1, vol2: 2}, creating vol1 again returns, with the location of LUN 3; the
  map is {vol1: 3, vol2: 2}, the number 1 is free and the next allocation returns it.
\<close>

theorem create_volume_overwrites_existing_witness:
  "map_of (name_map (example_driver [(''vol1'', 1), (''vol2'', 2)]))
     (vol_name (example_volume ''vol1'')) = Some 1 \<and>
   dict_wf (name_map (example_driver [(''vol1'', 1), (''vol2'', 2)])) \<and>
   lun_inv (name_map (example_driver [(''vol1'', 1), (''vol2'', 2)])) \<and>
   fst (create_volume backend_ok (example_driver [(''vol1'', 1), (''vol2'', 2)])
          (example_volume ''vol1'')) = Inr ''10.0.0.1:3260,1 iqn.test 3'' \<and>
   name_map (snd (create_volume backend_ok (example_driver [(''vol1'', 1), (''vol2'', 2)])
                    (example_volume ''vol1''))) = [(''vol1'', 3), (''vol2'', 2)] \<and>
   1 \<notin> lun_numbers (name_map (snd (create_volume backend_ok
                                      (example_driver [(''vol1'', 1), (''vol2'', 2)])
                                      (example_volume ''vol1'')))) \<and>
   fst (allocate_lun_number (snd (create_volume backend_ok
                                    (example_driver [(''vol1'', 1), (''vol2'', 2)])
                                    (example_volume ''vol1'')))) = Inr 1"
proof -
  let ?st = "example_driver [(''vol1'', 1), (''vol2'', 2)]"
  let ?v = "example_volume ''vol1''"
  have present: "map_of (name_map ?st) (vol_name ?v) = Some 1"
    by (simp add: example_driver_def example_volume_def)
  have wf: "dict_wf (name_map ?st)" by (simp add: example_driver_def dict_wf_def)
  have inv: "lun_inv (name_map ?st)" by (simp add: example_driver_def lun_inv_def)
  have ok: "fst (create_volume backend_ok ?st ?v) = Inr ''10.0.0.1:3260,1 iqn.test 3''"
    by (simp add: create_volume_def eval_defs empty_response_def)
  have m': "name_map (snd (create_volume backend_ok ?st ?v)) = [(''vol1'', 3), (''vol2'', 2)]"
    by (simp add: create_volume_def eval_defs empty_response_def)
  from create_volume_overwrites_existing [OF present ok] wf inv obtain l where
    free: "1 \<notin> lun_numbers (name_map (snd (create_volume backend_ok ?st ?v)))"
    and l: "fst (allocate_lun_number (snd (create_volume backend_ok ?st ?v))) = Inr l"
    and le: "l \<le> 1"
    by blast
  from allocate_lun_number_fresh [OF l] le have "l = 1" by simp
  with present wf inv ok m' free l show ?thesis by simp
qed

text \<open>
  Claim C10 as stated, for every map that holds the name, fails on a map where two names
  are on one number, which \<^verbatim>\<open>do_setup\<close> can load from the metadata of the bucket. On
  {a: 1, b: 1}, creating \<open>a\<close> again returns and gives {a: 2, b: 1}: the old number 1 is
  still the value of the item of \<open>b\<close>, and the next allocation returns 3, not 1.
\<close>

theorem create_volume_overwrites_existing_counterexample:
  "map_of (name_map (example_driver [(''a'', 1), (''b'', 1)])) (vol_name (example_volume ''a''))
     = Some 1 \<and>
   fst (create_volume backend_ok (example_driver [(''a'', 1), (''b'', 1)])
          (example_volume ''a'')) = Inr ''10.0.0.1:3260,1 iqn.test 2'' \<and>
   name_map (snd (create_volume backend_ok (example_driver [(''a'', 1), (''b'', 1)])
                    (example_volume ''a''))) = [(''a'', 2), (''b'', 1)] \<and>
   1 \<in> lun_numbers (name_map (snd (create_volume backend_ok
                                      (example_driver [(''a'', 1), (''b'', 1)])
                                      (example_volume ''a'')))) \<and>
   fst (allocate_lun_number (snd (create_volume backend_ok
                                    (example_driver [(''a'', 1), (''b'', 1)])
                                    (example_volume ''a'')))) = Inr 3"
  by (simp add: create_volume_def eval_defs empty_response_def lun_numbers_def)

end
